theory Spec2Isabelle
  imports Complex_Main
begin

section \<open>Python string operations used by the application\<close>

text \<open>
  Strings are lists of characters. The development covers the ASCII range, on which
  Python's \<^verbatim>\<open>str.lower\<close>, \<^verbatim>\<open>str.title\<close>, \<^verbatim>\<open>str.capitalize\<close> and
  \<^verbatim>\<open>str.split\<close> act as written here: only the letters A-Z and a-z are cased, every
  other character is left unchanged by the case functions.
\<close>

definition is_upper :: "char \<Rightarrow> bool" where
  "is_upper c = (65 \<le> (of_char c :: nat) \<and> (of_char c :: nat) \<le> 90)"

definition is_lower :: "char \<Rightarrow> bool" where
  "is_lower c = (97 \<le> (of_char c :: nat) \<and> (of_char c :: nat) \<le> 122)"

definition is_cased :: "char \<Rightarrow> bool" where
  "is_cased c = (is_upper c \<or> is_lower c)"

definition lower_char :: "char \<Rightarrow> char" where
  "lower_char c = (if is_upper c then char_of ((of_char c :: nat) + 32) else c)"

definition upper_char :: "char \<Rightarrow> char" where
  "upper_char c = (if is_lower c then char_of ((of_char c :: nat) - 32) else c)"

text \<open>\<^verbatim>\<open>s.lower()\<close>\<close>

definition lower :: "string \<Rightarrow> string" where
  "lower s = map lower_char s"

text \<open>
  \<^verbatim>\<open>s.title()\<close>: a character that follows a cased character is lowercased, any other
  character is uppercased.
\<close>

fun title_from :: "bool \<Rightarrow> string \<Rightarrow> string" where
  "title_from prev [] = []"
| "title_from prev (c # cs) =
     (if prev then lower_char c else upper_char c) # title_from (is_cased c) cs"

definition title :: "string \<Rightarrow> string" where
  "title s = title_from False s"

text \<open>\<^verbatim>\<open>s.capitalize()\<close>: first character uppercased, the rest lowercased.\<close>

fun capitalize :: "string \<Rightarrow> string" where
  "capitalize [] = []"
| "capitalize (c # cs) = upper_char c # map lower_char cs"

text \<open>
  Whitespace of \<^verbatim>\<open>str.split()\<close> and \<^verbatim>\<open>str.strip()\<close> in the ASCII range: tab, line
  feed, vertical tab, form feed, carriage return, the four separators 28-31 and space.
\<close>

definition is_space :: "char \<Rightarrow> bool" where
  "is_space c = ((of_char c :: nat) \<in> {9, 10, 11, 12, 13, 28, 29, 30, 31, 32})"

text \<open>\<^verbatim>\<open>s.split()\<close>: the maximal runs of non-whitespace characters, in order.\<close>

fun split_from :: "string \<Rightarrow> string \<Rightarrow> string list" where
  "split_from cur [] = (if cur = [] then [] else [cur])"
| "split_from cur (c # cs) =
     (if is_space c then (if cur = [] then split_from [] cs else cur # split_from [] cs)
      else split_from (cur @ [c]) cs)"

definition split :: "string \<Rightarrow> string list" where
  "split s = split_from [] s"

text \<open>\<^verbatim>\<open>sep.join(parts)\<close>\<close>

fun join :: "string \<Rightarrow> string list \<Rightarrow> string" where
  "join sep [] = []"
| "join sep [p] = p"
| "join sep (p # q # ps) = p @ sep @ join sep (q # ps)"

text \<open>\<^verbatim>\<open>s.strip()\<close>\<close>

definition strip :: "string \<Rightarrow> string" where
  "strip s = rev (dropWhile is_space (rev (dropWhile is_space s)))"

text \<open>\<^verbatim>\<open>needle in haystack\<close> on strings: contiguous substring containment.\<close>

fun starts_with :: "string \<Rightarrow> string \<Rightarrow> bool" where
  "starts_with [] hay = True"
| "starts_with (x # xs) [] = False"
| "starts_with (x # xs) (y # ys) = (x = y \<and> starts_with xs ys)"

fun str_contains :: "string \<Rightarrow> string \<Rightarrow> bool" where
  "str_contains needle [] = (needle = [])"
| "str_contains needle (h # hs) = (starts_with needle (h # hs) \<or> str_contains needle hs)"

text \<open>
  \<^verbatim>\<open>s.rsplit('.', 1)\<close>: split at the last dot; a string without a dot comes back
  as the only element.
\<close>

definition rsplit_dot :: "string \<Rightarrow> string list" where
  "rsplit_dot s =
     (if CHR ''.'' \<in> set s
      then [rev (drop 1 (dropWhile (\<lambda>c. c \<noteq> CHR ''.'') (rev s))),
            rev (takeWhile (\<lambda>c. c \<noteq> CHR ''.'') (rev s))]
      else [s])"

datatype py_exn =
    IndexError string
  | KeyError string
  | TypeError string
  | AttributeError string
  | RequestException string
  | OtherException string

text \<open>\<^verbatim>\<open>xs[i]\<close> on a list, for a non-negative index.\<close>

definition list_index :: "'a list \<Rightarrow> nat \<Rightarrow> py_exn + 'a" where
  "list_index xs i =
     (if i < length xs then Inr (xs ! i) else Inl (IndexError ''list index out of range''))"

section \<open>Skill vocabulary\<close>

definition JOB_ROLE_SKILLS :: "(string \<times> string list) list" where
  "JOB_ROLE_SKILLS =
    [(''Software Engineer'',
        [''Python'', ''Java'', ''C++'', ''JavaScript'', ''SQL'', ''Data Structures'',
         ''Algorithms'', ''Object-Oriented Programming'', ''Web Development'',
         ''Cloud Computing'', ''Version Control (Git)'', ''Problem Solving'',
         ''Communication'', ''Teamwork'', ''Agile Methodologies'', ''REST API'',
         ''Docker'', ''Kubernetes'', ''Microservices'', ''Unit Testing'', ''CI/CD'']),
     (''Data Scientist'',
        [''Python'', ''R'', ''SQL'', ''Machine Learning'', ''Deep Learning'',
         ''Statistical Modeling'', ''Data Visualization'', ''Data Wrangling'',
         ''Big Data Technologies'', ''Cloud Computing'', ''Communication'',
         ''Problem Solving'', ''Critical Thinking'', ''Business Acumen'',
         ''Pandas'', ''NumPy'', ''Scikit-learn'', ''TensorFlow'', ''PyTorch'', ''Spark'']),
     (''Business Analyst'',
        [''Requirements Gathering'', ''Data Analysis'', ''SQL'', ''Process Modeling'',
         ''Stakeholder Management'', ''Communication'', ''Problem Solving'',
         ''Project Management'', ''Microsoft Excel'', ''Presentation Skills'',
         ''Critical Thinking'', ''Business Process Improvement'', ''UML'', ''Agile'',
         ''User Stories'', ''Jira'', ''Confluence'']),
     (''Project Manager'',
        [''Project Planning'', ''Risk Management'', ''Budget Management'',
         ''Stakeholder Management'', ''Team Leadership'', ''Communication'',
         ''Negotiation'', ''Problem Solving'', ''Agile Methodologies'',
         ''Scrum'', ''Time Management'', ''Decision Making'', ''Gantt Charts'',
         ''Resource Allocation'', ''Conflict Resolution''])]"

definition EXTRA_SOFT_SKILLS :: "string list" where
  "EXTRA_SOFT_SKILLS =
    [''leadership'', ''adaptability'', ''creativity'', ''time management'',
     ''analytical skills'', ''attention to detail'', ''customer service'',
     ''negotiation'', ''public speaking'']"

text \<open>
  The flattened vocabulary is a Python set. Its iteration order is unspecified; the list
  below fixes one order without duplicates, and no result depends on the order.
\<close>

definition ALL_POSSIBLE_SKILLS_LOWER :: "string list" where
  "ALL_POSSIBLE_SKILLS_LOWER =
     remdups (map lower (concat (map snd JOB_ROLE_SKILLS)) @ EXTRA_SOFT_SKILLS)"

definition DEFAULT_SKILLS :: "string list" where
  "DEFAULT_SKILLS = [''Communication'', ''Problem Solving'', ''Teamwork'', ''Adaptability'']"

text \<open>\<^verbatim>\<open>JOB_ROLE_SKILLS.get(job_role, [...])\<close>\<close>

definition get_target_skills_static :: "string \<Rightarrow> string list" where
  "get_target_skills_static job_role =
     (case map_of JOB_ROLE_SKILLS job_role of
        Some skills \<Rightarrow> skills
      | None \<Rightarrow> DEFAULT_SKILLS)"

section \<open>Skill extraction\<close>

text \<open>
  \<^verbatim>\<open>nlp(text).text\<close>: the text of a spaCy document is the text it was built from;
  the tokenizer does not alter it.
\<close>

definition doc_text :: "string \<Rightarrow> string" where
  "doc_text s = s"

text \<open>
  The display form of a vocabulary entry:
  \<^verbatim>\<open>skill.title() if len(skill.split()) == 1 else ' '.join(word.capitalize() for word in skill.split())\<close>
\<close>

definition display_case :: "string \<Rightarrow> string" where
  "display_case skill =
     (if length (split skill) = 1 then title skill
      else join '' '' (map capitalize (split skill)))"

text \<open>
  \<^verbatim>\<open>extract_skills_nlp\<close> collects the display forms in a set and returns them as a
  list; \<open>remdups\<close> is the set's removal of duplicates.
\<close>

definition extract_skills_nlp :: "string \<Rightarrow> string list" where
  "extract_skills_nlp resume_text =
     remdups (map display_case
       (filter (\<lambda>skill. str_contains skill (doc_text (lower resume_text)))
          ALL_POSSIBLE_SKILLS_LOWER))"

text \<open>
  The list \<^verbatim>\<open>missing_skills\<close> that \<^verbatim>\<open>generate_recommendation_non_ai\<close> computes first:
  \<^verbatim>\<open>[skill for skill in target_job_skills if skill.lower() not in [s.lower() for s in extracted_skills]]\<close>
\<close>

definition missing_skills :: "string list \<Rightarrow> string list \<Rightarrow> string list" where
  "missing_skills extracted_skills target_job_skills =
     filter (\<lambda>skill. lower skill \<notin> set (map lower extracted_skills)) target_job_skills"

section \<open>File type check and text extraction\<close>

definition ALLOWED_EXTENSIONS :: "string set" where
  "ALLOWED_EXTENSIONS = {''txt'', ''pdf'', ''docx''}"

text \<open>
  \<^verbatim>\<open>'.' in filename and filename.rsplit('.', 1)[1].lower() in ALLOWED_EXTENSIONS\<close>.
  The index into the split result is written with its \<^verbatim>\<open>IndexError\<close>.
\<close>

definition allowed_file :: "string \<Rightarrow> py_exn + bool" where
  "allowed_file filename =
     (if CHR ''.'' \<notin> set filename then Inr False
      else (case list_index (rsplit_dot filename) 1 of
              Inl e \<Rightarrow> Inl e
            | Inr suffix \<Rightarrow> Inr (lower suffix \<in> ALLOWED_EXTENSIONS)))"

text \<open>
  An uploaded file. What the three readers make of its bytes is outside the
  application, so the file carries it: the UTF-8 decoding of the bytes with undecodable
  bytes dropped, the text of each PDF page (\<open>None\<close> for a page without text) or the
  failure of the PDF reader, and the paragraphs of the DOCX document or the failure of
  its reader.
\<close>

datatype 'a parsed = ParseFailure | Parsed 'a

record file_storage =
  filename :: string
  read_decoded :: string
  pdf_pages :: "string option list parsed"
  docx_paragraphs :: "string list parsed"

text \<open>\<^verbatim>\<open>page.extract_text() or ""\<close>\<close>

definition page_text :: "string option \<Rightarrow> string" where
  "page_text p = (case p of None \<Rightarrow> [] | Some t \<Rightarrow> t)"

text \<open>
  \<^verbatim>\<open>extract_text_from_file\<close>: the result is \<open>Inl\<close> for an exception that escapes,
  \<open>Inr None\<close> for the \<^verbatim>\<open>return None\<close> of the two handlers, and \<open>Inr (Some text)\<close>
  otherwise.
\<close>

definition extract_text_from_file :: "file_storage \<Rightarrow> py_exn + string option" where
  "extract_text_from_file file =
     (case list_index (rsplit_dot (filename file)) 1 of
        Inl e \<Rightarrow> Inl e
      | Inr suffix \<Rightarrow>
          (let file_extension = lower suffix in
           if file_extension = ''txt'' then Inr (Some (read_decoded file))
           else if file_extension = ''pdf'' then
             (case pdf_pages file of
                ParseFailure \<Rightarrow> Inr None
              | Parsed pages \<Rightarrow> Inr (Some (concat (map page_text pages))))
           else if file_extension = ''docx'' then
             (case docx_paragraphs file of
                ParseFailure \<Rightarrow> Inr None
              | Parsed paragraphs \<Rightarrow>
                  Inr (Some (concat (map (\<lambda>p. p @ [CHR 0x0A]) paragraphs))))
           else Inr (Some [])))"

section \<open>Scoring\<close>

text \<open>
  The score is a Python float. It is modelled by the exact rational it approximates;
  \<^verbatim>\<open>round(x, 2)\<close> rounds to the nearest hundredth, a tie going to the even one.
\<close>

definition round_half_even :: "rat \<Rightarrow> int" where
  "round_half_even x =
     (let f = \<lfloor>x\<rfloor>; d = x - of_int f in
      if d < 1 / 2 then f
      else if 1 / 2 < d then f + 1
      else if even f then f else f + 1)"

definition py_round2 :: "rat \<Rightarrow> rat" where
  "py_round2 x = of_int (round_half_even (x * 100)) / 100"

text \<open>
  The loop over the target skills, with its three accumulators
  \<^verbatim>\<open>chart_labels\<close>, \<^verbatim>\<open>chart_values\<close> and \<^verbatim>\<open>matched_skills_count\<close>.
\<close>

fun chart_loop ::
  "string set \<Rightarrow> string list \<Rightarrow> string list \<times> nat list \<times> nat \<Rightarrow> string list \<times> nat list \<times> nat"
where
  "chart_loop extracted_skills_lower [] acc = acc"
| "chart_loop extracted_skills_lower (skill # rest) (chart_labels, chart_values, matched) =
     (if lower skill \<in> extracted_skills_lower
      then chart_loop extracted_skills_lower rest
             (chart_labels @ [skill], chart_values @ [1], matched + 1)
      else chart_loop extracted_skills_lower rest
             (chart_labels @ [skill], chart_values @ [0], matched))"

section \<open>The upload handler\<close>

datatype page = LoginPage | UploadPage | ChartsPage

datatype response = Redirect page | Render string

record match_report =
  chart_labels :: "string list"
  chart_values :: "nat list"
  extracted_skills :: "string list"
  target_job_skills :: "string list"
  resume_score :: rat
  selected_job_role :: string

record upload_result =
  response :: response
  flashes :: "(string \<times> string) list"
  stored :: "match_report option"

definition MSG_NOT_EXTRACTED :: string where
  "MSG_NOT_EXTRACTED =
     ''Could not extract text from the uploaded file. Please ensure it is a valid TXT, PDF, or DOCX.''"

definition MSG_EMPTY_TEXT :: string where
  "MSG_EMPTY_TEXT =
     ''Extracted resume text is empty. Please ensure your resume contains readable text.''"

definition MSG_NO_TARGET_SKILLS :: string where
  "MSG_NO_TARGET_SKILLS = ''Could not determine target job skills. Please try again.''"

definition MSG_NO_SKILLS :: string where
  "MSG_NO_SKILLS =
     ''Could not extract skills from resume using NLP/keyword matching. Please ensure your resume contains clear skill mentions.''"

definition MSG_INVALID_TYPE :: string where
  "MSG_INVALID_TYPE = ''Invalid file type. Allowed types: TXT, PDF, DOCX''"

definition failure :: "string \<Rightarrow> upload_result" where
  "failure msg =
     \<lparr>response = Redirect UploadPage, flashes = [(msg, ''danger'')], stored = None\<rparr>"

text \<open>
  The part of \<^verbatim>\<open>upload\<close> that follows the two lookups: the guard on the target
  skills, the fallback for an empty extraction, the loop, the score and the session
  entries.
\<close>

definition upload_analysis :: "string \<Rightarrow> string list \<Rightarrow> string list \<Rightarrow> upload_result" where
  "upload_analysis target_job_role target_skills extracted =
     (if target_skills = [] then failure MSG_NO_TARGET_SKILLS
      else
        (let warn = (if extracted = [] then [(MSG_NO_SKILLS, ''danger'')] else []);
             extracted' = (if extracted = [] then [] else extracted);
             extracted_skills_lower = set (map lower extracted');
             (labels, vals, matched) =
                chart_loop extracted_skills_lower target_skills ([], [], 0);
             score = (if target_skills \<noteq> []
                      then py_round2 (of_nat matched / of_nat (length target_skills) * 100)
                      else 0)
         in \<lparr>response = Redirect ChartsPage,
             flashes = warn @ [(''Resume analyzed and score calculated!'', ''success'')],
             stored = Some \<lparr>chart_labels = labels, chart_values = vals,
                            extracted_skills = extracted', target_job_skills = target_skills,
                            resume_score = score, selected_job_role = target_job_role\<rparr>\<rparr>))"

record upload_request =
  logged_in :: bool
  is_post :: bool
  form_role :: "string option"
  resume :: "file_storage option"

definition upload :: "upload_request \<Rightarrow> py_exn + upload_result" where
  "upload req =
     (if \<not> logged_in req then
        Inr \<lparr>response = Redirect LoginPage,
             flashes = [(''Please log in to upload a resume.'', ''warning'')], stored = None\<rparr>
      else if \<not> is_post req then
        Inr \<lparr>response = Render ''upload.html'', flashes = [], stored = None\<rparr>
      else
        (case form_role req of
           None \<Rightarrow> Inr (failure ''Please select a target job role.'')
         | Some target_job_role \<Rightarrow>
            if target_job_role = [] then Inr (failure ''Please select a target job role.'')
            else
              (case resume req of
                 None \<Rightarrow> Inr (failure ''No file part'')
               | Some file \<Rightarrow>
                  if filename file = [] then Inr (failure ''No selected file'')
                  else
                    (case allowed_file (filename file) of
                       Inl e \<Rightarrow> Inl e
                     | Inr False \<Rightarrow>
                         Inr \<lparr>response = Render ''upload.html'',
                              flashes = [(MSG_INVALID_TYPE, ''danger'')], stored = None\<rparr>
                     | Inr True \<Rightarrow>
                        (case extract_text_from_file file of
                           Inl e \<Rightarrow> Inl e
                         | Inr None \<Rightarrow> Inr (failure MSG_NOT_EXTRACTED)
                         | Inr (Some resume_text) \<Rightarrow>
                            if resume_text = [] then Inr (failure MSG_NOT_EXTRACTED)
                            else if strip resume_text = [] then Inr (failure MSG_EMPTY_TEXT)
                            else Inr (upload_analysis target_job_role
                                        (get_target_skills_static target_job_role)
                                        (extract_skills_nlp resume_text)))))))"

section \<open>The chat completion call\<close>

text \<open>
  The values of a decoded JSON document, as Python sees them: \<^verbatim>\<open>None\<close>, booleans,
  numbers, strings, lists and dictionaries (a dictionary as the list of its items).
\<close>

datatype json =
    JNull
  | JBool bool
  | JNum rat
  | JStr string
  | JArr "json list"
  | JObj "(string \<times> json) list"

text \<open>Truth value of a Python object.\<close>

definition truthy :: "json \<Rightarrow> bool" where
  "truthy v =
     (case v of
        JNull \<Rightarrow> False
      | JBool b \<Rightarrow> b
      | JNum n \<Rightarrow> n \<noteq> 0
      | JStr s \<Rightarrow> s \<noteq> []
      | JArr xs \<Rightarrow> xs \<noteq> []
      | JObj kvs \<Rightarrow> kvs \<noteq> [])"

text \<open>\<^verbatim>\<open>v.get(key)\<close>: only a dictionary has the method.\<close>

definition py_get :: "json \<Rightarrow> string \<Rightarrow> py_exn + json" where
  "py_get v key =
     (case v of
        JObj kvs \<Rightarrow> Inr (case map_of kvs key of None \<Rightarrow> JNull | Some x \<Rightarrow> x)
      | _ \<Rightarrow> Inl (AttributeError ''object has no attribute get''))"

text \<open>\<^verbatim>\<open>v[key]\<close> for a string key.\<close>

definition subscript_key :: "json \<Rightarrow> string \<Rightarrow> py_exn + json" where
  "subscript_key v key =
     (case v of
        JObj kvs \<Rightarrow> (case map_of kvs key of None \<Rightarrow> Inl (KeyError key) | Some x \<Rightarrow> Inr x)
      | JArr xs \<Rightarrow> Inl (TypeError ''list indices must be integers or slices, not str'')
      | JStr s \<Rightarrow> Inl (TypeError ''string indices must be integers, not str'')
      | _ \<Rightarrow> Inl (TypeError ''object is not subscriptable''))"

text \<open>\<^verbatim>\<open>v[0]\<close>\<close>

definition subscript_zero :: "json \<Rightarrow> py_exn + json" where
  "subscript_zero v =
     (case v of
        JArr xs \<Rightarrow>
          (case xs of [] \<Rightarrow> Inl (IndexError ''list index out of range'') | x # _ \<Rightarrow> Inr x)
      | JStr s \<Rightarrow>
          (case s of [] \<Rightarrow> Inl (IndexError ''string index out of range'')
           | c # _ \<Rightarrow> Inr (JStr [c]))
      | JObj kvs \<Rightarrow> Inl (KeyError ''0'')
      | _ \<Rightarrow> Inl (TypeError ''object is not subscriptable''))"

text \<open>\<^verbatim>\<open>v[:100]\<close>\<close>

definition slice_100 :: "json \<Rightarrow> py_exn + json" where
  "slice_100 v =
     (case v of
        JStr s \<Rightarrow> Inr (JStr (take 100 s))
      | JArr xs \<Rightarrow> Inr (JArr (take 100 xs))
      | JObj kvs \<Rightarrow> Inl (TypeError ''unhashable type: slice'')
      | _ \<Rightarrow> Inl (TypeError ''object is not subscriptable''))"

text \<open>Sequencing of steps that may raise.\<close>

definition and_then :: "py_exn + 'a \<Rightarrow> ('a \<Rightarrow> py_exn + 'b) \<Rightarrow> py_exn + 'b" where
  "and_then r f = (case r of Inl e \<Rightarrow> Inl e | Inr v \<Rightarrow> f v)"

text \<open>\<^verbatim>\<open>x and y\<close>: the value of \<open>x\<close> when it is false, otherwise the value of \<open>y\<close>.\<close>

definition py_and :: "py_exn + json \<Rightarrow> (py_exn + json) \<Rightarrow> py_exn + json" where
  "py_and x y = and_then x (\<lambda>v. if truthy v then y else Inr v)"

text \<open>\<^verbatim>\<open>result['candidates'][0]\<close>\<close>

definition first_candidate :: "json \<Rightarrow> py_exn + json" where
  "first_candidate result = and_then (subscript_key result ''candidates'') subscript_zero"

text \<open>
  The condition of the first \<^verbatim>\<open>if\<close>:
  \<^verbatim>\<open>result.get('candidates') and result['candidates'][0].get('content') and result['candidates'][0]['content'].get('parts')\<close>
\<close>

definition has_parts :: "json \<Rightarrow> py_exn + json" where
  "has_parts result =
     py_and
       (py_and (py_get result ''candidates'')
               (and_then (first_candidate result) (\<lambda>c. py_get c ''content'')))
       (and_then (first_candidate result) (\<lambda>c.
          and_then (subscript_key c ''content'') (\<lambda>content. py_get content ''parts'')))"

text \<open>\<^verbatim>\<open>result['candidates'][0]['content']['parts'][0]['text']\<close>\<close>

definition first_text :: "json \<Rightarrow> py_exn + json" where
  "first_text result =
     and_then (first_candidate result) (\<lambda>c.
       and_then (subscript_key c ''content'') (\<lambda>content.
         and_then (subscript_key content ''parts'') (\<lambda>parts.
           and_then (subscript_zero parts) (\<lambda>part. subscript_key part ''text''))))"

text \<open>
  The condition of the second \<^verbatim>\<open>if\<close>:
  \<^verbatim>\<open>result.get('promptFeedback') and result['promptFeedback'].get('blockReason')\<close>
\<close>

definition block_reason :: "json \<Rightarrow> py_exn + json" where
  "block_reason result =
     py_and (py_get result ''promptFeedback'')
            (and_then (subscript_key result ''promptFeedback'') (\<lambda>pf. py_get pf ''blockReason''))"

definition MSG_NOT_CONFIGURED :: string where
  "MSG_NOT_CONFIGURED =
     ''Sorry, the AI chatbot is not configured. Please ensure the API key is set.''"

definition MSG_BLOCKED :: string where
  "MSG_BLOCKED =
     ''The AI response was blocked due to content policy. Please try a different query.''"

definition MSG_UNEXPECTED_FORMAT :: string where
  "MSG_UNEXPECTED_FORMAT =
     ''Sorry, I couldn'' @ [CHR 0x27] @ ''t generate a response. The AI returned an unexpected format.''"

definition MSG_CONNECTING :: string where
  "MSG_CONNECTING =
     ''Sorry, I'' @ [CHR 0x27] @ ''m having trouble connecting to the AI. Error: ''"

definition MSG_UNEXPECTED_ERROR :: string where
  "MSG_UNEXPECTED_ERROR = ''An unexpected error occurred with the AI. Error: ''"

definition MSG_CHAT_FALLBACK :: string where
  "MSG_CHAT_FALLBACK =
     ''Sorry, I couldn'' @ [CHR 0x27] @ ''t generate a response at this time. There might be an issue with the AI service or content policy. Please try again later.''"

definition CHAT_PREFIX :: string where
  "CHAT_PREFIX =
     ''You are a helpful and encouraging career guidance AI. Your goal is to provide supportive and actionable advice based on the user'' @ [CHR 0x27] @ ''s query. Respond to the following query: ''"

text \<open>\<^verbatim>\<open>str(e)\<close>: the message of an exception.\<close>

definition exn_text :: "py_exn \<Rightarrow> string" where
  "exn_text e =
     (case e of
        IndexError m \<Rightarrow> m
      | KeyError k \<Rightarrow> [CHR 0x27] @ k @ [CHR 0x27]
      | TypeError m \<Rightarrow> m
      | AttributeError m \<Rightarrow> m
      | RequestException m \<Rightarrow> m
      | OtherException m \<Rightarrow> m)"

text \<open>
  What the request to the remote service comes to: \<^verbatim>\<open>requests.post\<close>,
  \<^verbatim>\<open>raise_for_status\<close> and \<^verbatim>\<open>response.json()\<close> either raise or deliver the
  decoded document.
\<close>

datatype remote_outcome = Raises py_exn | Responds json

text \<open>The body of the \<^verbatim>\<open>try\<close> block.\<close>

definition gemini_try :: "remote_outcome \<Rightarrow> py_exn + json" where
  "gemini_try outcome =
     (case outcome of
        Raises e \<Rightarrow> Inl e
      | Responds result \<Rightarrow>
          and_then (has_parts result) (\<lambda>cond.
            if truthy cond then
              and_then (first_text result) (\<lambda>generated_text.
                and_then (slice_100 generated_text) (\<lambda>shown. Inr generated_text))
            else
              and_then (block_reason result) (\<lambda>blocked.
                if truthy blocked then Inr (JStr MSG_BLOCKED)
                else Inr (JStr MSG_UNEXPECTED_FORMAT))))"

text \<open>
  \<^verbatim>\<open>call_gemini_api_for_chatbot\<close>, for the configured key and the outcome of the
  remote request. The two handlers turn every exception of the body into a message.
\<close>

definition call_gemini_api_for_chatbot ::
  "string \<Rightarrow> remote_outcome \<Rightarrow> string \<Rightarrow> py_exn + json"
where
  "call_gemini_api_for_chatbot GEMINI_API_KEY outcome prompt =
     (if GEMINI_API_KEY = [] then Inr (JStr MSG_NOT_CONFIGURED)
      else
        (case gemini_try outcome of
           Inr v \<Rightarrow> Inr v
         | Inl (RequestException m) \<Rightarrow> Inr (JStr (MSG_CONNECTING @ m))
         | Inl e \<Rightarrow> Inr (JStr (MSG_UNEXPECTED_ERROR @ exn_text e))))"

record chatbot_request =
  chat_logged_in :: bool
  chat_is_post :: bool
  query :: string

record chatbot_result =
  chat_response :: response
  chat_flashes :: "(string \<times> string) list"
  response_text :: "json option"
  user_query :: string

text \<open>The \<^verbatim>\<open>chatbot\<close> handler.\<close>

definition chatbot :: "string \<Rightarrow> remote_outcome \<Rightarrow> chatbot_request \<Rightarrow> py_exn + chatbot_result" where
  "chatbot GEMINI_API_KEY outcome req =
     (if \<not> chat_logged_in req then
        Inr \<lparr>chat_response = Redirect LoginPage,
             chat_flashes = [(''Please log in to use the chatbot.'', ''warning'')],
             response_text = None, user_query = []\<rparr>
      else if \<not> chat_is_post req then
        Inr \<lparr>chat_response = Render ''chatbot.html'', chat_flashes = [],
             response_text = None, user_query = []\<rparr>
      else if query req = [] then
        Inr \<lparr>chat_response = Render ''chatbot.html'',
             chat_flashes = [(''Please enter a query.'', ''danger'')],
             response_text = None, user_query = query req\<rparr>
      else
        and_then (call_gemini_api_for_chatbot GEMINI_API_KEY outcome (CHAT_PREFIX @ query req))
          (\<lambda>answer.
             if \<not> truthy answer then
               Inr \<lparr>chat_response = Render ''chatbot.html'',
                    chat_flashes = [(''Error getting response from AI chatbot.'', ''danger'')],
                    response_text = Some (JStr MSG_CHAT_FALLBACK), user_query = query req\<rparr>
             else
               Inr \<lparr>chat_response = Render ''chatbot.html'', chat_flashes = [],
                    response_text = Some answer, user_query = query req\<rparr>))"

section \<open>Results\<close>

subsection \<open>Case conversion and substrings\<close>

lemma lower_char_upper_char: "lower_char (upper_char c) = lower_char c"
proof (cases "is_lower c")
  case False
  then show ?thesis by (simp add: upper_char_def)
next
  case True
  define n where "n = (of_char c :: nat)"
  from True have n: "97 \<le> n" "n \<le> 122" by (simp_all add: is_lower_def n_def)
  have u: "upper_char c = char_of (n - 32)" using True by (simp add: upper_char_def n_def)
  have m: "(n - 32) mod 256 = n - 32" using n by simp
  have r: "65 \<le> n - 32 \<and> n - 32 \<le> 90" using n by arith
  have "is_upper (char_of (n - 32))" using r by (simp add: is_upper_def m)
  then have "lower_char (upper_char c) = char_of ((n - 32) + 32)"
    by (simp add: lower_char_def u m)
  also have "(n - 32) + 32 = n" using n by simp
  also have "char_of n = c" by (simp add: n_def)
  finally have l: "lower_char (upper_char c) = c" .
  have "\<not> is_upper c" using n by (simp add: is_upper_def n_def)
  then have "lower_char c = c" by (simp add: lower_char_def)
  with l show ?thesis by simp
qed

lemma lower_char_idem: "lower_char (lower_char c) = lower_char c"
  by (simp add: lower_char_def is_upper_def)

lemma lower_idem: "lower (lower s) = lower s"
  by (simp add: lower_def lower_char_idem)

lemma lower_append: "lower (a @ b) = lower a @ lower b"
  by (simp add: lower_def)

lemma lower_title_from: "lower (title_from b s) = lower s"
  by (induction s arbitrary: b) (simp_all add: lower_def lower_char_upper_char lower_char_idem)

lemma lower_title: "lower (title s) = lower s"
  by (simp add: title_def lower_title_from)

lemma lower_capitalize: "lower (capitalize s) = lower s"
  by (cases s) (simp_all add: lower_def lower_char_upper_char lower_char_idem)

lemma is_space_lower_char: "is_space (lower_char c) = is_space c"
proof (cases "is_upper c")
  case False
  then show ?thesis by (simp add: lower_char_def)
next
  case True
  define n where "n = (of_char c :: nat)"
  from True have n: "65 \<le> n" "n \<le> 90" by (simp_all add: is_upper_def n_def)
  have m: "(n + 32) mod 256 = n + 32" using n by simp
  have a: "\<not> is_space c" using n by (auto simp: is_space_def n_def [symmetric])
  have "of_char (lower_char c) = n + 32" using True m by (simp add: lower_char_def n_def)
  then have "\<not> is_space (lower_char c)" using n by (auto simp: is_space_def)
  with a show ?thesis by simp
qed

lemma lower_eq_Nil: "lower s = [] \<longleftrightarrow> s = []"
  by (simp add: lower_def)

lemma split_from_lower: "split_from (lower cur) (lower s) = map lower (split_from cur s)"
proof (induction s arbitrary: cur)
  case Nil
  show ?case by (simp add: lower_def)
next
  case (Cons c s)
  have e: "lower [] = []" by (simp add: lower_def)
  have c: "lower (c # s) = lower_char c # lower s" by (simp add: lower_def)
  have a: "lower cur @ [lower_char c] = lower (cur @ [c])" by (simp add: lower_def)
  show ?case
  proof (cases "is_space c")
    case True
    then show ?thesis
      using Cons.IH [of "[]"] by (simp add: c is_space_lower_char lower_eq_Nil e)
  next
    case False
    then show ?thesis
      using Cons.IH [of "cur @ [c]"] by (simp add: c is_space_lower_char a)
  qed
qed

lemma split_lower: "split (lower s) = map lower (split s)"
  using split_from_lower [of "[]" s] by (simp add: split_def lower_def)

lemma lower_join: "lower (join sep xs) = join (lower sep) (map lower xs)"
proof (induction sep xs rule: join.induct)
  case (1 sep)
  show ?case by (simp add: lower_def)
next
  case (2 sep p)
  show ?case by simp
next
  case (3 sep p q ps)
  have "lower (join sep (p # q # ps)) = lower p @ lower sep @ lower (join sep (q # ps))"
    by (simp only: join.simps lower_append)
  also have "\<dots> = lower p @ lower sep @ join (lower sep) (map lower (q # ps))"
    by (simp only: "3.IH")
  also have "\<dots> = join (lower sep) (map lower (p # q # ps))"
    by (simp only: list.map join.simps)
  finally show ?case .
qed

lemma map_lower_capitalize: "map lower (map capitalize ws) = map lower ws"
  by (induction ws) (simp_all add: lower_capitalize)

lemma lower_display_case:
  "lower (display_case v) =
     (if length (split v) = 1 then lower v else lower (join '' '' (split v)))"
proof -
  have s: "lower '' '' = '' ''" by (simp add: lower_def lower_char_def is_upper_def)
  have "lower (join '' '' (map capitalize (split v))) = lower (join '' '' (split v))"
    by (simp only: lower_join s map_lower_capitalize)
  then show ?thesis by (simp add: display_case_def lower_title)
qed

lemma starts_with_iff: "starts_with n h \<longleftrightarrow> (\<exists>s. h = n @ s)"
  by (induction n h rule: starts_with.induct) auto

lemma str_contains_iff: "str_contains n h \<longleftrightarrow> (\<exists>p s. h = p @ n @ s)"
proof (induction h)
  case Nil show ?case by auto
next
  case (Cons a h)
  show ?case
  proof
    assume "str_contains n (a # h)"
    then consider "starts_with n (a # h)" | "str_contains n h" by auto
    then show "\<exists>p s. a # h = p @ n @ s"
    proof cases
      case 1 then obtain s where "a # h = n @ s" by (auto simp: starts_with_iff)
      then have "a # h = [] @ n @ s" by simp
      then show ?thesis by blast
    next
      case 2 then obtain p s where "h = p @ n @ s" using Cons.IH by auto
      then have "a # h = (a # p) @ n @ s" by simp
      then show ?thesis by blast
    qed
  next
    assume "\<exists>p s. a # h = p @ n @ s"
    then obtain p s where ps: "a # h = p @ n @ s" by auto
    show "str_contains n (a # h)"
    proof (cases p)
      case Nil with ps have "starts_with n (a # h)" by (auto simp: starts_with_iff)
      then show ?thesis by simp
    next
      case (Cons b q)
      with ps have "h = q @ n @ s" by simp
      then have "str_contains n h" using Cons.IH by auto
      then show ?thesis by simp
    qed
  qed
qed

lemma sources_spaced:
  "list_all (\<lambda>s. length (split s) = 1 \<or> join '' '' (split s) = s)
     (concat (map snd JOB_ROLE_SKILLS) @ EXTRA_SOFT_SKILLS)"
  by (simp add: JOB_ROLE_SKILLS_def EXTRA_SOFT_SKILLS_def split_def is_space_def)

lemma extras_lower: "list_all (\<lambda>e. lower e = e) EXTRA_SOFT_SKILLS"
  by (simp add: EXTRA_SOFT_SKILLS_def lower_def lower_char_def is_upper_def)

lemma set_vocabulary:
  "set ALL_POSSIBLE_SKILLS_LOWER =
     lower ` set (concat (map snd JOB_ROLE_SKILLS)) \<union> set EXTRA_SOFT_SKILLS"
  by (simp only: ALL_POSSIBLE_SKILLS_LOWER_def set_remdups set_append set_map)

lemma default_sources:
  "''Communication'' \<in> set (concat (map snd JOB_ROLE_SKILLS))"
  "''Problem Solving'' \<in> set (concat (map snd JOB_ROLE_SKILLS))"
  "''Teamwork'' \<in> set (concat (map snd JOB_ROLE_SKILLS))"
  by (simp_all add: JOB_ROLE_SKILLS_def)

lemma adaptability_extra: "lower ''Adaptability'' \<in> set EXTRA_SOFT_SKILLS"
  by (simp add: lower_def lower_char_def is_upper_def char_of_eq_iff EXTRA_SOFT_SKILLS_def)

lemma default_in_vocabulary:
  assumes "s \<in> set DEFAULT_SKILLS"
  shows "lower s \<in> set ALL_POSSIBLE_SKILLS_LOWER"
proof -
  from assms have "s = ''Communication'' \<or> s = ''Problem Solving'' \<or> s = ''Teamwork''
      \<or> s = ''Adaptability''"
    by (simp add: DEFAULT_SKILLS_def)
  then have "s \<in> set (concat (map snd JOB_ROLE_SKILLS)) \<or> lower s \<in> set EXTRA_SOFT_SKILLS"
    using default_sources adaptability_extra by (elim disjE) (simp_all only: simp_thms)
  then show ?thesis
    unfolding set_vocabulary by (elim disjE) (simp_all only: Un_iff imageI simp_thms)
qed

lemma lower_display_source:
  assumes "length (split s) = 1 \<or> join '' '' (split s) = s"
  shows "lower (display_case (lower s)) = lower s"
proof (cases "length (split s) = 1")
  case True
  then show ?thesis by (simp add: lower_display_case split_lower lower_idem)
next
  case False
  with assms have j: "join '' '' (split s) = s" by simp
  have sp: "lower '' '' = '' ''" by (simp add: lower_def lower_char_def is_upper_def)
  have "join '' '' (map lower (split s)) = lower (join '' '' (split s))"
    by (simp add: lower_join sp)
  then have "join '' '' (split (lower s)) = lower s" by (simp add: split_lower j)
  with False show ?thesis by (simp add: lower_display_case split_lower lower_idem)
qed

lemma vocabulary_lower:
  assumes "v \<in> set ALL_POSSIBLE_SKILLS_LOWER"
  shows "lower v = v"
proof -
  from assms consider s where "v = lower s" | "v \<in> set EXTRA_SOFT_SKILLS"
    unfolding set_vocabulary by blast
  then show ?thesis
  proof cases
    case 1 then show ?thesis by (simp add: lower_idem)
  next
    case 2
    have "\<forall>e \<in> set EXTRA_SOFT_SKILLS. lower e = e"
      using extras_lower by (simp only: list_all_iff)
    with 2 show ?thesis by blast
  qed
qed

lemma vocabulary_roundtrip:
  assumes "v \<in> set ALL_POSSIBLE_SKILLS_LOWER"
  shows "lower (display_case v) = v"
proof -
  from assms consider s where "s \<in> set (concat (map snd JOB_ROLE_SKILLS))" "v = lower s"
    | "v \<in> set EXTRA_SOFT_SKILLS"
    unfolding set_vocabulary by blast
  then show ?thesis
  proof cases
    case 1
    then have "length (split s) = 1 \<or> join '' '' (split s) = s"
      using sources_spaced by (auto simp: list_all_iff)
    then show ?thesis using 1 by (simp add: lower_display_source)
  next
    case 2
    then have sp: "length (split v) = 1 \<or> join '' '' (split v) = v"
      using sources_spaced by (auto simp: list_all_iff)
    from 2 have l: "lower v = v" using extras_lower by (auto simp: list_all_iff)
    from lower_display_source [OF sp] show ?thesis by (simp add: l)
  qed
qed

lemma extracted_lower_iff:
  "u \<in> set (map lower (extract_skills_nlp text)) \<longleftrightarrow>
     u \<in> set ALL_POSSIBLE_SKILLS_LOWER \<and> str_contains u (lower text)"
proof
  assume "u \<in> set (map lower (extract_skills_nlp text))"
  then obtain v where v: "v \<in> set ALL_POSSIBLE_SKILLS_LOWER" "str_contains v (lower text)"
      "u = lower (display_case v)"
    by (auto simp: extract_skills_nlp_def doc_text_def)
  then show "u \<in> set ALL_POSSIBLE_SKILLS_LOWER \<and> str_contains u (lower text)"
    by (simp add: vocabulary_roundtrip)
next
  assume a: "u \<in> set ALL_POSSIBLE_SKILLS_LOWER \<and> str_contains u (lower text)"
  then have "display_case u \<in> set (extract_skills_nlp text)"
    by (auto simp: extract_skills_nlp_def doc_text_def)
  then have "lower (display_case u) \<in> set (map lower (extract_skills_nlp text))"
    by simp
  with a show "u \<in> set (map lower (extract_skills_nlp text))"
    by (simp add: vocabulary_roundtrip)
qed

lemma target_in_vocabulary:
  assumes "s \<in> set (get_target_skills_static role)"
  shows "lower s \<in> set ALL_POSSIBLE_SKILLS_LOWER"
proof (cases "map_of JOB_ROLE_SKILLS role")
  case None
  with assms show ?thesis
    by (simp add: get_target_skills_static_def default_in_vocabulary)
next
  case (Some skills)
  then have "(role, skills) \<in> set JOB_ROLE_SKILLS" by (rule map_of_SomeD)
  moreover from Some assms have "s \<in> set skills" by (simp add: get_target_skills_static_def)
  ultimately have "s \<in> set (concat (map snd JOB_ROLE_SKILLS))" by force
  then show ?thesis unfolding set_vocabulary by blast
qed

subsection \<open>Role lookup\<close>

lemma dom_JOB_ROLE_SKILLS:
  "fst ` set JOB_ROLE_SKILLS =
     {''Software Engineer'', ''Data Scientist'', ''Business Analyst'', ''Project Manager''}"
  by (simp add: JOB_ROLE_SKILLS_def)

text \<open>
  Claim C7. A role name that is none of the four known job roles resolves to exactly
  the default list Communication, Problem Solving, Teamwork, Adaptability; the lookup
  does not fail.
\<close>

theorem unknown_role_default:
  assumes "job_role \<notin> {''Software Engineer'', ''Data Scientist'',
                        ''Business Analyst'', ''Project Manager''}"
  shows "get_target_skills_static job_role =
           [''Communication'', ''Problem Solving'', ''Teamwork'', ''Adaptability'']"
proof -
  have "job_role \<notin> fst ` set JOB_ROLE_SKILLS"
    unfolding dom_JOB_ROLE_SKILLS by (rule assms)
  then have "map_of JOB_ROLE_SKILLS job_role = None"
    by (simp add: map_of_eq_None_iff)
  then show ?thesis
    by (simp add: get_target_skills_static_def DEFAULT_SKILLS_def)
qed

theorem unknown_role_default_witness:
  "''Astronaut'' \<notin> {''Software Engineer'', ''Data Scientist'',
                     ''Business Analyst'', ''Project Manager''}
   \<and> get_target_skills_static ''Astronaut'' =
       [''Communication'', ''Problem Solving'', ''Teamwork'', ''Adaptability'']"
proof -
  have h: "''Astronaut'' \<notin> {''Software Engineer'', ''Data Scientist'',
                            ''Business Analyst'', ''Project Manager''}"
    by simp
  show ?thesis using h unknown_role_default [OF h] by simp
qed

end
